theory Spec2Isabelle
  imports Complex_Main "HOL-Library.AList"
begin

section \<open>Python values, exceptions and module namespaces\<close>

text \<open>
  A naive UTC \<open>datetime\<close> is the number of microseconds since 1970-01-01T00:00:00, a
  \<open>timedelta\<close> a number of microseconds. Python's \<open>int\<close> is \<open>int\<close>. Python's \<open>float\<close>
  is idealised as \<open>real\<close>: representation error of binary floating point is not modelled.
\<close>

type_synonym datetime = int
type_synonym timedelta = int

definition timedelta_minutes :: "int \<Rightarrow> timedelta" where
  "timedelta_minutes m = m * 60 * 1000000"

text \<open>
  The exceptions that the modelled code can raise: \<open>HTTPException(status_code, detail)\<close> of
  FastAPI, and the built-in \<open>NameError\<close> (with the unbound name), \<open>ValueError\<close> and
  \<open>ZeroDivisionError\<close>. A computation that may raise has a result of type \<open>error + 'a\<close>.
\<close>

datatype error =
    HTTPException nat "string option"
  | NameError string
  | ValueError
  | ZeroDivisionError

text \<open>
  A function body reads a global name from the namespace of its module, which holds what the
  module imports and defines; none of the names concerned is a built-in. Reading an unbound
  name raises \<open>NameError\<close>.
\<close>

definition load_global :: "string list \<Rightarrow> string \<Rightarrow> error + unit" where
  "load_global globals name = (if name \<in> set globals then Inr () else Inl (NameError name))"

text \<open>\<open>datetime.utcnow()\<close>, evaluated in a module with the given namespace when the clock reads \<open>now\<close>.\<close>

definition datetime_utcnow :: "string list \<Rightarrow> datetime \<Rightarrow> error + datetime" where
  "datetime_utcnow globals now =
     (case load_global globals ''datetime'' of Inl e \<Rightarrow> Inl e | Inr _ \<Rightarrow> Inr now)"

section \<open>The tables (\<open>models.py\<close>) and the request schema (\<open>schemas.py\<close>)\<close>

text \<open>
  One record per mapped class. Every column but the primary key is nullable in
  \<open>models.py\<close>, hence the option types.
\<close>

record User =
  id :: int
  username :: "string option"
  hashed_password :: "string option"

record Employee =
  id :: int
  name :: "string option"
  registration_date :: "datetime option"
  is_archived :: "bool option"

record Trucker =
  id :: int
  name :: "string option"
  company_name :: "string option"
  province_of_issue :: "string option"
  is_archived :: "bool option"

record Document =
  id :: int
  title :: "string option"
  verified :: "bool option"
  verification_date :: "datetime option"
  verified_by :: "string option"

record DocumentUpdate =
  verified :: bool
  verified_by :: "string option"

text \<open>The committed state of the database: the rows of the four tables.\<close>

record database =
  users :: "User list"
  employees :: "Employee list"
  truckers :: "Trucker list"
  documents :: "Document list"

section \<open>Document mutation (\<open>routes/documents.py\<close>)\<close>

text \<open>
  The names bound in the module \<open>routes/documents.py\<close>: its four import statements and its
  three top-level definitions.
\<close>

definition documents_globals :: "string list" where
  "documents_globals =
     [''APIRouter'', ''Depends'', ''HTTPException'', ''SessionLocal'', ''Document'',
      ''DocumentUpdate'', ''router'', ''get_db'', ''update_document'']"

text \<open>\<open>db.query(Document).get(doc_id)\<close>: the row with that primary key, or \<open>None\<close>.\<close>

definition query_get :: "Document list \<Rightarrow> int \<Rightarrow> Document option" where
  "query_get rows pk = find (\<lambda>r. Document.id r = pk) rows"

text \<open>\<open>db.commit()\<close> with one modified object in the session: its row is rewritten.\<close>

definition commit :: "database \<Rightarrow> Document \<Rightarrow> database" where
  "commit db doc =
     db\<lparr>documents := map (\<lambda>r. if Document.id r = Document.id doc then doc else r) (documents db)\<rparr>"

text \<open>
  The body of \<open>update_document\<close>, from its first statement on. The arguments are the path
  parameter, the validated request body, the reading of the clock and the committed database;
  the result is the outcome of the call (\<open>Inr ()\<close> for \<open>return None\<close>) and the committed
  database after it. The assignments to \<open>doc\<close> change the object held by the session; they
  reach the database at \<open>db.commit()\<close> only, so a call that raises leaves the database as it
  was (the session is closed by \<open>get_db\<close> without a commit). What the interpreter does when
  it loads the module is outside the model: the decorator, and the parameter annotation
  \<open>Session\<close>, a name that the module does not import either.
\<close>

definition update_document ::
  "int \<Rightarrow> DocumentUpdate \<Rightarrow> datetime \<Rightarrow> database \<Rightarrow> (error + unit) \<times> database" where
  "update_document doc_id data now db =
     (case query_get (documents db) doc_id of
        None \<Rightarrow> (Inl (HTTPException 404 (Some ''Document not found'')), db)
      | Some doc0 \<Rightarrow>
          let doc = doc0\<lparr>Document.verified := Some (DocumentUpdate.verified data)\<rparr> in
          if DocumentUpdate.verified data \<and> verification_date doc = None then
            (case datetime_utcnow documents_globals now of
               Inl e \<Rightarrow> (Inl e, db)
             | Inr t \<Rightarrow>
                 (Inr (), commit db (doc\<lparr>verification_date := Some t,
                                          Document.verified_by := DocumentUpdate.verified_by data\<rparr>)))
          else if \<not> DocumentUpdate.verified data then
            (Inr (), commit db (doc\<lparr>verification_date := None, Document.verified_by := None\<rparr>))
          else (Inr (), commit db doc))"

section \<open>Authentication (\<open>routes/auth.py\<close>)\<close>

text \<open>The names bound in the module \<open>routes/auth.py\<close>; \<open>datetime\<close> and \<open>timedelta\<close> are imported there.\<close>

definition auth_globals :: "string list" where
  "auth_globals =
     [''APIRouter'', ''Depends'', ''HTTPException'', ''status'', ''OAuth2PasswordBearer'',
      ''OAuth2PasswordRequestForm'', ''jwt'', ''JWTError'', ''datetime'', ''timedelta'', ''Token'',
      ''User'', ''SessionLocal'', ''CryptContext'', ''router'', ''pwd_context'', ''oauth2_scheme'',
      ''SECRET_KEY'', ''ALGORITHM'', ''ACCESS_TOKEN_EXPIRE_MINUTES'', ''verify_password'',
      ''get_user'', ''authenticate_user'', ''create_access_token'', ''login'']"

definition SECRET_KEY :: string where
  "SECRET_KEY = ''your-secret-key-here''"

definition ALGORITHM :: string where
  "ALGORITHM = ''HS256''"

definition ACCESS_TOKEN_EXPIRE_MINUTES :: int where
  "ACCESS_TOKEN_EXPIRE_MINUTES = 30"

text \<open>
  The values of the claims of a token, and the token itself. Signing is symbolic:
  \<open>jwt.encode(claims, key, algorithm)\<close> is the constructor \<open>JWT\<close>, so a token carries exactly
  the claims it was made from. The claims are a dictionary, kept as an association list; the
  expiry is kept as the instant handed to \<open>jwt.encode\<close>, which writes it in whole seconds.
\<close>

datatype claim = StrClaim string | NoneClaim | DatetimeClaim datetime

datatype jwt = JWT "(string \<times> claim) list" string string

fun claims :: "jwt \<Rightarrow> (string \<times> claim) list" where
  "claims (JWT cs key alg) = cs"

record Token =
  access_token :: jwt
  token_type :: string

record OAuth2PasswordRequestForm =
  username :: string
  password :: string

text \<open>\<open>db.query(User).filter(User.username == username).first()\<close>\<close>

definition get_user :: "User list \<Rightarrow> string \<Rightarrow> User option" where
  "get_user rows uname = find (\<lambda>u. User.username u = Some uname) rows"

text \<open>
  \<open>authenticate_user\<close>; its \<open>False\<close> is \<open>None\<close> here. The password check
  \<open>pwd_context.verify\<close> of passlib is a parameter.
\<close>

definition authenticate_user ::
  "(string \<Rightarrow> string option \<Rightarrow> bool) \<Rightarrow> User list \<Rightarrow> string \<Rightarrow> string \<Rightarrow> User option" where
  "authenticate_user verify_password rows uname pw =
     (case get_user rows uname of
        None \<Rightarrow> None
      | Some user \<Rightarrow> if \<not> verify_password pw (hashed_password user) then None else Some user)"

text \<open>
  \<open>create_access_token(data, expires_delta=None)\<close>. In \<open>expires_delta or timedelta(minutes=15)\<close>
  the default is taken when \<open>expires_delta\<close> is \<open>None\<close> and also when it is the zero
  \<open>timedelta\<close>, which is false in Python.
\<close>

definition create_access_token ::
  "(string \<times> claim) list \<Rightarrow> timedelta option \<Rightarrow> datetime \<Rightarrow> error + jwt" where
  "create_access_token data expires_delta now =
     (let to_encode = data in
      case datetime_utcnow auth_globals now of
        Inl e \<Rightarrow> Inl e
      | Inr t \<Rightarrow>
          let expire = t + (case expires_delta of
                              None \<Rightarrow> timedelta_minutes 15
                            | Some d \<Rightarrow> if d = 0 then timedelta_minutes 15 else d) in
          Inr (JWT (AList.update ''exp'' (DatetimeClaim expire) to_encode) SECRET_KEY ALGORITHM))"

text \<open>The handler of \<open>POST /auth/token\<close>.\<close>

definition login ::
  "(string \<Rightarrow> string option \<Rightarrow> bool) \<Rightarrow> datetime \<Rightarrow> database \<Rightarrow> OAuth2PasswordRequestForm
     \<Rightarrow> error + Token" where
  "login verify_password now db form_data =
     (case authenticate_user verify_password (users db)
             (OAuth2PasswordRequestForm.username form_data) (password form_data) of
        None \<Rightarrow> Inl (HTTPException 401 None)
      | Some user \<Rightarrow>
          (case create_access_token
                  [(''sub'', case User.username user of None \<Rightarrow> NoneClaim | Some s \<Rightarrow> StrClaim s)]
                  None now of
             Inl e \<Rightarrow> Inl e
           | Inr tok \<Rightarrow> Inr \<lparr>access_token = tok, token_type = ''bearer''\<rparr>))"

section \<open>What \<open>crud.py\<close> takes from Python, SQL and scikit-learn\<close>

text \<open>Sequencing of computations that may raise.\<close>

fun and_then :: "error + 'a \<Rightarrow> ('a \<Rightarrow> error + 'b) \<Rightarrow> error + 'b" where
  "and_then (Inl e) f = Inl e"
| "and_then (Inr x) f = f x"

text \<open>Python's \<open>a / b\<close> on integers.\<close>

definition py_truediv :: "int \<Rightarrow> int \<Rightarrow> error + real" where
  "py_truediv a b = (if b = 0 then Inl ZeroDivisionError else Inr (of_int a / of_int b))"

text \<open>\<open>round(x)\<close> and \<open>round(x, ndigits)\<close>: to the nearest, a tie to the even neighbour.\<close>

definition py_round :: "real \<Rightarrow> int" where
  "py_round x =
     (let f = \<lfloor>x\<rfloor>; r = x - of_int f in
      if r < 1 / 2 then f else if 1 / 2 < r then f + 1 else if even f then f else f + 1)"

definition py_round_ndigits :: "real \<Rightarrow> nat \<Rightarrow> real" where
  "py_round_ndigits x ndigits = of_int (py_round (x * 10 ^ ndigits)) / 10 ^ ndigits"

text \<open>\<open>max(xs, key=key)\<close>: the first element with the greatest key; no element, \<open>ValueError\<close>.\<close>

fun py_max :: "('a \<Rightarrow> int) \<Rightarrow> 'a list \<Rightarrow> error + 'a" where
  "py_max key [] = Inl ValueError"
| "py_max key (x # xs) = Inr (foldl (\<lambda>best y. if key best < key y then y else best) x xs)"

text \<open>\<open>d.get(k, default)\<close> on a dictionary kept as an association list.\<close>

definition dict_get :: "('k \<times> 'v) list \<Rightarrow> 'k \<Rightarrow> 'v \<Rightarrow> 'v" where
  "dict_get d k dflt = (case map_of d k of None \<Rightarrow> dflt | Some v \<Rightarrow> v)"




text \<open>
  \<open>SELECT key, count(id) ... GROUP BY key\<close> over the given keys of the selected rows: one
  result row per distinct key, with the number of rows that have it. SQL fixes no order of
  the result rows; here they come in the order of the last row of each group.
\<close>

definition group_by_count :: "'k list \<Rightarrow> ('k \<times> int) list" where
  "group_by_count keys = map (\<lambda>k. (k, int (count_list keys k))) (remdups keys)"




section \<open>Analytics (\<open>crud.py\<close>)\<close>




record TruckerDistribution =
  by_province :: "(string option \<times> int) list"
  by_company :: "(string \<times> int) list"
  percentages :: "(string \<times> real) list"
  most_common :: string
  trend :: string

text \<open>\<open>func.coalesce(Trucker.company_name, 'Independent')\<close>\<close>

definition coalesce_company :: "Trucker \<Rightarrow> string" where
  "coalesce_company t = (case company_name t of None \<Rightarrow> ''Independent'' | Some c \<Rightarrow> c)"

text \<open>The dictionary comprehension \<open>{k: round((v / total) * 100, 2) for k, v in by_company}\<close>.\<close>

fun percentages_of :: "(string \<times> int) list \<Rightarrow> int \<Rightarrow> error + (string \<times> real) list" where
  "percentages_of [] total_n = Inr []"
| "percentages_of ((k, v) # rest) total_n =
     and_then (py_truediv v total_n) (\<lambda>q.
       and_then (percentages_of rest total_n) (\<lambda>ps.
         Inr ((k, py_round_ndigits (q * 100) 2) # ps)))"

definition get_trucker_distribution :: "database \<Rightarrow> error + TruckerDistribution" where
  "get_trucker_distribution db =
     (let by_province = group_by_count (map province_of_issue (truckers db));
          by_company = group_by_count (map coalesce_company (truckers db));
          total_n = int (length (truckers db))
      in and_then (percentages_of by_company total_n) (\<lambda>percentages.
         and_then (py_max snd by_company) (\<lambda>winner.
           let most_common = fst winner;
               trend = (if 40 < dict_get percentages ''Independent'' 0 then ''Increasing independence''
                        else if list_ex (\<lambda>v. 60 < v) (map snd percentages) then ''Company dominance''
                        else ''Balanced'')
           in Inr \<lparr>by_province = by_province, by_company = by_company,
                    percentages = percentages, most_common = most_common, trend = trend\<rparr>)))"




section \<open>Example states\<close>

text \<open>
  Three documents: one never verified, one verified by alice, and one verified with no
  verifier recorded.
\<close>

definition example_documents :: database where
  "example_documents =
     \<lparr>users = [], employees = [], truckers = [],
      documents =
        [\<lparr>Document.id = 1, title = Some ''licence'', Document.verified = Some False,
          verification_date = None, Document.verified_by = None\<rparr>,
         \<lparr>Document.id = 2, title = Some ''permit'', Document.verified = Some True,
          verification_date = Some 1700000000000000, Document.verified_by = Some ''alice''\<rparr>,
         \<lparr>Document.id = 3, title = Some ''medical'', Document.verified = Some True,
          verification_date = Some 1700000000000000, Document.verified_by = None\<rparr>]\<rparr>"

text \<open>One registered user, and a password check under which her password is \<open>wonderland\<close>.\<close>

definition example_users :: database where
  "example_users =
     \<lparr>users = [\<lparr>User.id = 1, User.username = Some ''alice'',
                hashed_password = Some ''$2b$12$hash-of-wonderland''\<rparr>],
      employees = [], truckers = [], documents = []\<rparr>"

definition example_verify :: "string \<Rightarrow> string option \<Rightarrow> bool" where
  "example_verify pw h = (h = Some (''$2b$12$hash-of-'' @ pw))"




definition example_empty :: database where
  "example_empty = \<lparr>users = [], employees = [], truckers = [], documents = []\<rparr>"

section \<open>Properties of the document mutation\<close>







text \<open>
  C1. The claim is that verifying a document whose verification date is unset completes and
  records the date, the verifier and the flag. The code does not: on that path it evaluates
  \<open>datetime.utcnow()\<close> in a module that never imports \<open>datetime\<close>. For every such document
  the call raises \<open>NameError\<close> and nothing is committed.
\<close>

theorem first_verification_raises:
  assumes "query_get (documents db) doc_id = Some doc" and "verification_date doc = None"
  shows "update_document doc_id \<lparr>DocumentUpdate.verified = True, DocumentUpdate.verified_by = v\<rparr>
           now db =
         (Inl (NameError ''datetime''), db)"
  using assms
  by (simp add: update_document_def datetime_utcnow_def load_global_def documents_globals_def)

theorem first_verification_raises_witness:
  "query_get (documents example_documents) 1 =
     Some \<lparr>Document.id = 1, title = Some ''licence'', Document.verified = Some False,
           verification_date = None, Document.verified_by = None\<rparr> \<and>
   update_document 1 \<lparr>DocumentUpdate.verified = True, DocumentUpdate.verified_by = Some ''alice''\<rparr>
     1700000600000000 example_documents =
   (Inl (NameError ''datetime''), example_documents)"
proof -
  have h: "query_get (documents example_documents) 1 =
     Some \<lparr>Document.id = 1, title = Some ''licence'', Document.verified = Some False,
           verification_date = None, Document.verified_by = None\<rparr>"
    by (simp add: query_get_def example_documents_def)
  show ?thesis using h first_verification_raises [OF h] by simp
qed






section \<open>Properties of the login\<close>

lemma create_access_token_default:
  "create_access_token data None now =
     Inr (JWT (AList.update ''exp'' (DatetimeClaim (now + timedelta_minutes 15)) data)
            SECRET_KEY ALGORITHM)"
  by (simp add: create_access_token_def datetime_utcnow_def load_global_def auth_globals_def)

text \<open>
  C3. The claim is that a token issued by the login expires 30 minutes after issuance. The
  code does not do that: \<open>login\<close> calls \<open>create_access_token\<close> without \<open>expires_delta\<close>, and
  the constant \<open>ACCESS_TOKEN_EXPIRE_MINUTES = 30\<close> is never used. Every token that the login
  issues carries the expiry of the default, 15 minutes after issuance, which is not the
  expiry 30 minutes after it.
\<close>

theorem login_token_expiry:
  assumes "login verify_password now db form_data = Inr tok"
  shows "map_of (claims (access_token tok)) ''exp'' =
           Some (DatetimeClaim (now + timedelta_minutes 15)) \<and>
         map_of (claims (access_token tok)) ''exp'' \<noteq>
           Some (DatetimeClaim (now + timedelta_minutes ACCESS_TOKEN_EXPIRE_MINUTES))"
  using assms
  by (auto simp add: login_def create_access_token_default update_conv' timedelta_minutes_def
      ACCESS_TOKEN_EXPIRE_MINUTES_def split: option.splits)

theorem login_token_expiry_witness:
  "login example_verify 1700000000000000 example_users
     \<lparr>OAuth2PasswordRequestForm.username = ''alice'', password = ''wonderland''\<rparr> =
   Inr \<lparr>access_token =
          JWT [(''sub'', StrClaim ''alice''), (''exp'', DatetimeClaim 1700000900000000)]
            ''your-secret-key-here'' ''HS256'',
        token_type = ''bearer''\<rparr> \<and>
   (1700000900000000 :: int) = 1700000000000000 + timedelta_minutes 15 \<and>
   (1700000900000000 :: int) \<noteq> 1700000000000000 + timedelta_minutes 30"
proof -
  have h: "login example_verify 1700000000000000 example_users
     \<lparr>OAuth2PasswordRequestForm.username = ''alice'', password = ''wonderland''\<rparr> =
   Inr \<lparr>access_token =
          JWT [(''sub'', StrClaim ''alice''), (''exp'', DatetimeClaim 1700000900000000)]
            ''your-secret-key-here'' ''HS256'',
        token_type = ''bearer''\<rparr>"
    by (simp add: login_def authenticate_user_def get_user_def example_users_def
        example_verify_def create_access_token_default timedelta_minutes_def SECRET_KEY_def
        ALGORITHM_def)
  show ?thesis
    using h login_token_expiry [OF h] by (simp add: ACCESS_TOKEN_EXPIRE_MINUTES_def)
qed

section \<open>Properties of the analytics\<close>

lemma group_by_count_Nil_iff: "group_by_count ks = [] \<longleftrightarrow> ks = []"
  by (auto simp add: group_by_count_def)


lemma percentages_of_nonzero:
  assumes "total_n \<noteq> 0"
  shows "percentages_of bc total_n =
           Inr (map (\<lambda>(k, v). (k, py_round_ndigits (real_of_int v / real_of_int total_n * 100) 2)) bc)"
  using assms by (induction bc) (auto simp add: py_truediv_def)

lemma percentages_of_query:
  "\<exists>ps. percentages_of (group_by_count (map coalesce_company ts)) (int (length ts)) = Inr ps"
proof (cases "ts = []")
  case True
  then show ?thesis by (simp add: group_by_count_def)
next
  case False
  then have "int (length ts) \<noteq> 0" by simp
  then show ?thesis by (simp add: percentages_of_nonzero)
qed

lemma py_max_Cons: "xs \<noteq> [] \<Longrightarrow> \<exists>x. py_max key xs = Inr x"
  by (cases xs) simp_all

text \<open>No state of the database makes the trucker distribution divide by zero.\<close>

lemma trucker_distribution_no_zero_division:
  "get_trucker_distribution db \<noteq> Inl ZeroDivisionError"
proof (cases "truckers db = []")
  case True
  then show ?thesis by (simp add: get_trucker_distribution_def group_by_count_def)
next
  case False
  let ?bc = "group_by_count (map coalesce_company (truckers db))"
  obtain ps where ps: "percentages_of ?bc (int (length (truckers db))) = Inr ps"
    using percentages_of_query by blast
  have "?bc \<noteq> []" using False by (simp add: group_by_count_Nil_iff)
  then obtain w where w: "py_max snd ?bc = Inr w"
    using py_max_Cons by blast
  show ?thesis
    using ps w by (simp add: get_trucker_distribution_def Let_def)
qed

text \<open>
  C5. With no trucker in the database the percentage computation divides nothing: the
  grouped query has no row, the comprehension yields the empty dictionary, and the operation
  does not end in \<open>ZeroDivisionError\<close>. What keeps the division from a zero total is that an
  empty table has no company bucket to iterate over; the code has no test of the total.
\<close>

theorem empty_truckers_no_division:
  assumes "truckers db = []"
  shows "percentages_of (group_by_count (map coalesce_company (truckers db)))
           (int (length (truckers db))) = Inr [] \<and>
         get_trucker_distribution db \<noteq> Inl ZeroDivisionError"
  using assms by (simp add: get_trucker_distribution_def group_by_count_def)

theorem empty_truckers_no_division_witness:
  "truckers example_empty = [] \<and>
   percentages_of (group_by_count (map coalesce_company (truckers example_empty)))
     (int (length (truckers example_empty))) = Inr [] \<and>
   get_trucker_distribution example_empty \<noteq> Inl ZeroDivisionError"
proof -
  have h: "truckers example_empty = []" by (simp add: example_empty_def)
  show ?thesis using h empty_truckers_no_division [OF h] by simp
qed

text \<open>
  C6. With no trucker in the database the trucker distribution still fails: \<open>max\<close> is applied
  to the empty list of company buckets and raises \<open>ValueError\<close>.
\<close>

theorem empty_truckers_fails:
  assumes "truckers db = []"
  shows "get_trucker_distribution db = Inl ValueError"
  using assms by (simp add: get_trucker_distribution_def group_by_count_def)

theorem empty_truckers_fails_witness:
  "truckers example_empty = [] \<and> get_trucker_distribution example_empty = Inl ValueError"
proof -
  have h: "truckers example_empty = []" by (simp add: example_empty_def)
  show ?thesis using h empty_truckers_fails [OF h] by simp
qed













end
